theory Spec2Isabelle
  imports Main "HOL-Library.Sublist"
begin

section \<open>Python values, strings and slices\<close>

text \<open>
  A Python string is a \<^typ>\<open>string\<close>: one \<^typ>\<open>char\<close> per code point, for the code
  points below 256. A search result is a \<open>Dict[str, Any]\<close>; the values that the engine
  stores under \<open>fact\<close> and \<open>created_at\<close> are text, a timestamp (held here by the text
  that \<open>str()\<close> gives for it, which is never empty) or \<open>None\<close>.
\<close>

datatype pyval = PyNone | PyStr string

type_synonym search_result = "string \<rightharpoonup> pyval"

datatype exn = AttributeError | EngineError string

definition NL :: char where
  "NL = CHR 0x0A"

text \<open>\<open>d.get(key, default)\<close>\<close>

definition dict_get :: "search_result \<Rightarrow> string \<Rightarrow> pyval \<Rightarrow> pyval" where
  "dict_get d k dflt = (case d k of None \<Rightarrow> dflt | Some v \<Rightarrow> v)"

text \<open>The truth value of \<open>if v:\<close> and the text an f-string puts for \<open>{v}\<close>.\<close>

definition truthy :: "pyval \<Rightarrow> bool" where
  "truthy v = (case v of PyNone \<Rightarrow> False | PyStr s \<Rightarrow> s \<noteq> [])"

definition py_str :: "pyval \<Rightarrow> string" where
  "py_str v = (case v of PyNone \<Rightarrow> ''None'' | PyStr s \<Rightarrow> s)"

text \<open>
  \<open>str.isspace\<close> on the code points below 256: tab to carriage return, the four
  separators 0x1C to 0x1F, the space, NEL and the no-break space.
\<close>

definition is_space :: "char \<Rightarrow> bool" where
  "is_space c =
     (let n = (of_char c :: nat)
      in (9 \<le> n \<and> n \<le> 13) \<or> (28 \<le> n \<and> n \<le> 32) \<or> n = 133 \<or> n = 160)"

definition strip :: "string \<Rightarrow> string" where
  "strip s = rev (dropWhile is_space (rev (dropWhile is_space s)))"

text \<open>\<open>v.strip()\<close>: \<open>None\<close> has no such method.\<close>

definition py_strip :: "pyval \<Rightarrow> exn + string" where
  "py_strip v = (case v of PyNone \<Rightarrow> Inl AttributeError | PyStr s \<Rightarrow> Inr (strip s))"

text \<open>\<open>xs[:n]\<close> and \<open>xs[-6:]\<close>; a negative bound counts from the end.\<close>

definition slice_to :: "'a list \<Rightarrow> int \<Rightarrow> 'a list" where
  "slice_to xs n =
     (if 0 \<le> n then take (nat n) xs else take (length xs - nat (- n)) xs)"

definition last_six :: "'a list \<Rightarrow> 'a list" where
  "last_six xs = drop (length xs - 6) xs"

text \<open>\<open>sep.join(parts)\<close>\<close>

fun join :: "string \<Rightarrow> string list \<Rightarrow> string" where
  "join sep [] = []"
| "join sep [p] = p"
| "join sep (p # q # ps) = p @ sep @ join sep (q # ps)"

text \<open>\<open>str(i)\<close> for the counter of \<open>enumerate(..., 1)\<close>.\<close>

definition digit_char :: "nat \<Rightarrow> char" where
  "digit_char d = ''0123456789'' ! d"

fun str_nat :: "nat \<Rightarrow> string" where
  "str_nat n = (if n < 10 then [digit_char n] else str_nat (n div 10) @ [digit_char (n mod 10)])"

declare str_nat.simps [simp del]


section \<open>ContextGenerator (ctx\_miner/core/context\_generator.py)\<close>

text \<open>
  The loop of \<open>format_context_for_llm\<close> over \<open>enumerate(search_results[:max_contexts], 1)\<close>,
  with \<open>context_parts\<close> as the accumulator.
\<close>

fun format_loop :: "(nat \<times> search_result) list \<Rightarrow> string list \<Rightarrow> string list" where
  "format_loop [] context_parts = context_parts"
| "format_loop ((i, result) # rest) context_parts =
     (let fact_text = dict_get result ''fact'' (PyStr '''');
          created_at = dict_get result ''created_at'' (PyStr '''');
          context_parts1 = context_parts @ [NL # str_nat i @ ''. '' @ py_str fact_text];
          context_parts2 =
            (if truthy created_at
             then context_parts1 @ [''   (From: '' @ py_str created_at @ '')'']
             else context_parts1)
      in format_loop rest context_parts2)"

definition format_parts :: "search_result list \<Rightarrow> int \<Rightarrow> string list" where
  "format_parts search_results max_contexts =
     format_loop (enumerate 1 (slice_to search_results max_contexts))
       [''Relevant conversation context:'']"

definition format_context_for_llm :: "search_result list \<Rightarrow> int \<Rightarrow> string" where
  "format_context_for_llm search_results max_contexts =
     (if search_results = [] then ''No relevant context found.''
      else join [NL] (format_parts search_results max_contexts))"

text \<open>
  Modelled from the spec: the schema classes \<open>CtxMinerMessage\<close> and \<open>CtxMinerEpisode\<close> of
  \<open>ctx_miner.core.schemas\<close>, which is not among the sources. A message is its role and its
  content; the two roles that \<open>chat\<close> passes, \<open>user\<close> and \<open>assistant\<close>, are of the closed
  role set, so that constructing the message does not fail. An episode is held by the
  messages it is built from, which \<open>add_episode\<close> receives with the name and the description.
\<close>

record message =
  role :: string
  content :: string

definition CtxMinerMessage :: "string \<Rightarrow> string \<Rightarrow> message" where
  "CtxMinerMessage r c = \<lparr>role = r, content = c\<rparr>"

text \<open>
  The engine \<open>CtxMiner\<close> is an external collaborator and a parameter here, given by how
  one call of it behaves: \<open>search_context\<close> returns the results or raises, \<open>add_episode\<close>
  returns or raises (\<open>None\<close> is a normal return). \<open>now\<close> is the text of
  \<open>datetime.now().strftime('%Y%m%d_%H%M%S')\<close>, and \<open>str_results\<close> is Python's \<open>str()\<close> of
  a result list, which this development does not interpret.
\<close>

record env =
  search_context :: "string \<Rightarrow> int \<Rightarrow> exn + search_result list"
  add_episode :: "message list \<Rightarrow> string \<Rightarrow> string \<Rightarrow> exn option"
  now :: string
  str_results :: "search_result list \<Rightarrow> string"

text \<open>\<open>get_context_for_query\<close> has no handler: what the search raises leaves the method.\<close>

definition get_context_for_query :: "env \<Rightarrow> string \<Rightarrow> int \<Rightarrow> bool \<Rightarrow> exn + string" where
  "get_context_for_query e query limit format_for_llm =
     (case search_context e query limit of
        Inl ex \<Rightarrow> Inl ex
      | Inr results \<Rightarrow>
          if format_for_llm then Inr (format_context_for_llm results 5)
          else Inr (str_results e results))"


section \<open>MemoryChatbot (examples/chatbot\_with\_memory.py)\<close>

text \<open>
  The object's fields, and with them what it has done to its collaborators: the calls made
  on \<open>self.miner\<close>, in order, and the records handed to the logger, one constructor for
  each logging statement of the class, holding the values the statement interpolates.
\<close>

datatype miner_call =
    SearchContext string int
  | AddEpisode "message list" string string

datatype log_record =
    ErrorRetrieving exn
  | GeneratedPrompt string
  | SavedTurn nat
  | ErrorSaving exn
  | RetrievedContext
  | SessionEnded string

record chatbot =
  user_id :: string
  current_session :: "message list"
  miner_calls :: "miner_call list"
  logged :: "log_record list"

definition MemoryChatbot :: "string \<Rightarrow> chatbot" where
  "MemoryChatbot uid =
     \<lparr>user_id = uid, current_session = [], miner_calls = [], logged = []\<rparr>"

definition call_miner :: "miner_call \<Rightarrow> chatbot \<Rightarrow> chatbot" where
  "call_miner c s = s\<lparr>miner_calls := miner_calls s @ [c]\<rparr>"

definition log_to :: "log_record \<Rightarrow> chatbot \<Rightarrow> chatbot" where
  "log_to r s = s\<lparr>logged := logged s @ [r]\<rparr>"

text \<open>
  The loop of \<open>get_relevant_context\<close> over \<open>results[:max_contexts]\<close>, with \<open>context_parts\<close>
  and \<open>seen_facts\<close> as accumulators. The \<open>strip\<close> of a value that is not text raises.
\<close>

fun collect_facts ::
  "search_result list \<Rightarrow> string list \<Rightarrow> string set \<Rightarrow> exn + string list" where
  "collect_facts [] context_parts seen_facts = Inr context_parts"
| "collect_facts (result # rest) context_parts seen_facts =
     (case py_strip (dict_get result ''fact'' (PyStr '''')) of
        Inl ex \<Rightarrow> Inl ex
      | Inr fact_text \<Rightarrow>
          if fact_text \<noteq> [] \<and> fact_text \<notin> seen_facts
          then collect_facts rest (context_parts @ [''- '' @ fact_text])
                 (insert fact_text seen_facts)
          else collect_facts rest context_parts seen_facts)"

definition get_relevant_context ::
  "env \<Rightarrow> chatbot \<Rightarrow> string \<Rightarrow> int \<Rightarrow> string \<times> chatbot" where
  "get_relevant_context e s user_input max_contexts =
     (let s1 = call_miner (SearchContext user_input (max_contexts * 2)) s
      in case search_context e user_input (max_contexts * 2) of
           Inl ex \<Rightarrow> ('''', log_to (ErrorRetrieving ex) s1)
         | Inr results \<Rightarrow>
             if results = [] then ('''', s1)
             else (case collect_facts (slice_to results max_contexts) [] {} of
                     Inl ex \<Rightarrow> ('''', log_to (ErrorRetrieving ex) s1)
                   | Inr context_parts \<Rightarrow>
                       if context_parts \<noteq> []
                       then (''Relevant context from past conversations:'' @ [NL]
                               @ join [NL] context_parts, s1)
                       else ('''', s1)))"

definition system_prompt :: "string \<Rightarrow> string" where
  "system_prompt context =
     ''You are a helpful assistant with access to conversation history.'' @ [NL]
     @ ''Use the provided context to give personalized and consistent responses.'' @ [NL]
     @ ''Remember previous interactions and build upon them.'' @ [NL] @ [NL]
     @ context"

definition generate_response :: "chatbot \<Rightarrow> string \<Rightarrow> string \<Rightarrow> string \<times> chatbot" where
  "generate_response s user_input context =
     (let conversation_history =
            join [NL] (map (\<lambda>msg. role msg @ '': '' @ content msg) (last_six (current_session s)));
          full_prompt =
            system_prompt context @ [NL] @ [NL]
            @ ''Recent conversation:'' @ [NL]
            @ conversation_history @ [NL] @ [NL]
            @ ''User: '' @ user_input @ [NL]
            @ ''Assistant:''
      in (''[Simulated response based on context about: '' @ user_input @ '']'',
          log_to (GeneratedPrompt full_prompt) s))"

definition save_conversation_turn :: "env \<Rightarrow> chatbot \<Rightarrow> chatbot" where
  "save_conversation_turn e s =
     (if 2 \<le> length (current_session s)
      then
        (let name = ''Session_'' @ user_id s @ ''_'' @ now e;
             description = ''Conversation session for user '' @ user_id s;
             s1 = call_miner (AddEpisode (current_session s) name description) s
         in case add_episode e (current_session s) name description of
              None \<Rightarrow> log_to (SavedTurn (length (current_session s))) s1
            | Some ex \<Rightarrow> log_to (ErrorSaving ex) s1)
      else s)"

definition append_message :: "message \<Rightarrow> chatbot \<Rightarrow> chatbot" where
  "append_message m s = s\<lparr>current_session := current_session s @ [m]\<rparr>"

definition chat :: "env \<Rightarrow> chatbot \<Rightarrow> string \<Rightarrow> string \<times> chatbot" where
  "chat e s user_input =
     (let s1 = append_message (CtxMinerMessage ''user'' user_input) s;
          (context, s2) = get_relevant_context e s1 user_input 5;
          s3 = (if context \<noteq> [] then log_to RetrievedContext s2 else s2);
          (response, s4) = generate_response s3 user_input context;
          s5 = append_message (CtxMinerMessage ''assistant'' response) s4;
          s6 = (if 4 \<le> length (current_session s5) \<and> length (current_session s5) mod 4 = 0
                then save_conversation_turn e s5 else s5)
      in (response, s6))"

definition end_session :: "env \<Rightarrow> chatbot \<Rightarrow> chatbot" where
  "end_session e s =
     (if current_session s \<noteq> []
      then log_to (SessionEnded (user_id s))
             ((save_conversation_turn e s)\<lparr>current_session := []\<rparr>)
      else s)"

section \<open>Observations and sample runs\<close>

text \<open>
  The message lists that the \<open>add_episode\<close> calls made so far carried, in call order: what
  has been flushed to the engine.
\<close>

fun episode_messages :: "miner_call \<Rightarrow> message list option" where
  "episode_messages (AddEpisode messages name description) = Some messages"
| "episode_messages (SearchContext query limit) = None"

definition flushes :: "chatbot \<Rightarrow> message list list" where
  "flushes s = List.map_filter episode_messages (miner_calls s)"

text \<open>
  The formatter as the specification words it: the block of the result at the 1-based
  position \<open>i\<close> is a numbered line with the fact text, followed by an indented provenance
  line when \<open>created_at\<close> holds a value (a value that is neither \<open>None\<close> nor empty); the
  output has the blocks of the first \<open>k\<close> results, in input order. A numbered line is a part
  that starts with the line break the formatter puts before the number.
\<close>

definition spec_block :: "nat \<Rightarrow> search_result \<Rightarrow> string list" where
  "spec_block i result =
     (NL # str_nat i @ ''. '' @ py_str (dict_get result ''fact'' (PyStr ''''))) #
     (if truthy (dict_get result ''created_at'' (PyStr ''''))
      then [''   (From: '' @ py_str (dict_get result ''created_at'' (PyStr '''')) @ '')'']
      else [])"

definition spec_blocks :: "search_result list \<Rightarrow> nat \<Rightarrow> string list list" where
  "spec_blocks results k = map (\<lambda>j. spec_block (j + 1) (results ! j)) [0..<k]"

definition is_numbered_line :: "string \<Rightarrow> bool" where
  "is_numbered_line p = (take 1 p = [NL])"

text \<open>
  The text of one block in the returned string: an empty line, the number and the fact text,
  then the provenance on a line of its own when \<open>created_at\<close> holds a value.
\<close>

definition block_text :: "nat \<Rightarrow> search_result \<Rightarrow> string" where
  "block_text i result =
     [NL, NL] @ str_nat i @ ''. '' @ py_str (dict_get result ''fact'' (PyStr ''''))
     @ (if truthy (dict_get result ''created_at'' (PyStr ''''))
        then [NL] @ ''   (From: '' @ py_str (dict_get result ''created_at'' (PyStr '''')) @ '')''
        else [])"

text \<open>
  The retriever as the specification words it: the key of a result is its trimmed fact
  text, and of a list of keys the first occurrences are kept, in order, which is the
  elements that do not occur earlier in the list. \<open>keep_new\<close> is the same selection by
  recursion, for the proofs. A result whose \<open>fact\<close> is \<open>None\<close> has no text to trim.
\<close>

definition fact_is_text :: "search_result \<Rightarrow> bool" where
  "fact_is_text r = (r ''fact'' \<noteq> Some PyNone)"

definition trimmed_fact :: "search_result \<Rightarrow> string" where
  "trimmed_fact r =
     (case dict_get r ''fact'' (PyStr '''') of PyNone \<Rightarrow> [] | PyStr t \<Rightarrow> strip t)"

definition first_occurrences :: "string list \<Rightarrow> string list" where
  "first_occurrences xs =
     map (\<lambda>i. xs ! i) (filter (\<lambda>i. xs ! i \<notin> set (take i xs)) [0..<length xs])"

fun keep_new :: "string set \<Rightarrow> string list \<Rightarrow> string list" where
  "keep_new seen [] = []"
| "keep_new seen (x # xs) =
     (if x \<in> seen then keep_new seen xs else x # keep_new (insert x seen) xs)"

text \<open>An engine that finds nothing and stores every episode, and one that is down.\<close>

definition demo_env :: env where
  "demo_env =
     \<lparr>search_context = (\<lambda>query limit. Inr []),
      add_episode = (\<lambda>messages name description. None),
      now = ''20240101_120000'',
      str_results = (\<lambda>results. ''[]'')\<rparr>"

definition failing_env :: env where
  "failing_env =
     \<lparr>search_context = (\<lambda>query limit. Inl (EngineError ''connection refused'')),
      add_episode = (\<lambda>messages name description. Some (EngineError ''connection refused'')),
      now = ''20240101_120000'',
      str_results = (\<lambda>results. ''[]'')\<rparr>"

text \<open>Three calls of \<open>chat\<close> on a new chatbot, and a buffer that holds one user turn.\<close>

definition six_turns :: chatbot where
  "six_turns =
     snd (chat demo_env (snd (chat demo_env (snd (chat demo_env (MemoryChatbot ''user_001'')
       ''U1'')) ''U2'')) ''U3'')"

definition one_turn :: chatbot where
  "one_turn = append_message (CtxMinerMessage ''user'' ''U1'') (MemoryChatbot ''user_001'')"

text \<open>
  Sample engine answers: results for the formatter, one of them without a fact; six results
  on refunds and shipping of which two share their fact text, from an engine that returns at
  most \<open>limit\<close> of them; and results whose facts differ by surrounding blanks only.
\<close>

definition sample_results :: "search_result list" where
  "sample_results =
     [[''fact'' \<mapsto> PyStr ''Refunds within 30 days'', ''created_at'' \<mapsto> PyStr ''2024-01-01''],
      [''created_at'' \<mapsto> PyNone],
      [''fact'' \<mapsto> PyStr ''Free shipping over $50'']]"

definition fact_result :: "string \<Rightarrow> search_result" where
  "fact_result t = [''fact'' \<mapsto> PyStr t]"

definition refund_results :: "search_result list" where
  "refund_results =
     map fact_result
       [''Refunds within 30 days'', ''Refunds within 30 days'', ''Free shipping over $50'',
        ''Express shipping is $15'', ''Overnight shipping is $25'', ''Returns go by post'']"

definition refund_env :: env where
  "refund_env = demo_env\<lparr>search_context := (\<lambda>query limit. Inr (slice_to refund_results limit))\<rparr>"

definition untrimmed_results :: "search_result list" where
  "untrimmed_results =
     [fact_result ''  refund '', fact_result ''   '', Map.empty, fact_result ''refund'',
      fact_result ''shipping'']"

definition untrimmed_env :: env where
  "untrimmed_env = demo_env\<lparr>search_context := (\<lambda>query limit. Inr untrimmed_results)\<rparr>"


section \<open>What each operation does to the fields\<close>

lemma get_relevant_context_session:
  "current_session (snd (get_relevant_context e s u n)) = current_session s"
  by (simp add: get_relevant_context_def call_miner_def log_to_def Let_def split: sum.splits)

lemma get_relevant_context_user:
  "user_id (snd (get_relevant_context e s u n)) = user_id s"
  by (simp add: get_relevant_context_def call_miner_def log_to_def Let_def split: sum.splits)

lemma get_relevant_context_calls:
  "miner_calls (snd (get_relevant_context e s u n)) = miner_calls s @ [SearchContext u (n * 2)]"
  by (simp add: get_relevant_context_def call_miner_def log_to_def Let_def split: sum.splits)

lemma generate_response_fst:
  "fst (generate_response s u c) = ''[Simulated response based on context about: '' @ u @ '']''"
  by (simp add: generate_response_def Let_def)

lemma generate_response_snd:
  "current_session (snd (generate_response s u c)) = current_session s"
  "user_id (snd (generate_response s u c)) = user_id s"
  "miner_calls (snd (generate_response s u c)) = miner_calls s"
  by (simp_all add: generate_response_def Let_def log_to_def)

lemma save_conversation_turn_session:
  "current_session (save_conversation_turn e s) = current_session s"
  by (simp add: save_conversation_turn_def call_miner_def log_to_def Let_def split: option.splits)

lemma save_conversation_turn_calls:
  "miner_calls (save_conversation_turn e s) =
     miner_calls s @
       (if 2 \<le> length (current_session s)
        then [AddEpisode (current_session s) (''Session_'' @ user_id s @ ''_'' @ now e)
                (''Conversation session for user '' @ user_id s)]
        else [])"
  by (simp add: save_conversation_turn_def call_miner_def log_to_def Let_def split: option.splits)

lemma chat_response:
  "fst (chat e s u) = ''[Simulated response based on context about: '' @ u @ '']''"
  by (simp add: chat_def Let_def split_beta generate_response_fst)

lemma chat_session:
  "current_session (snd (chat e s u)) =
     current_session s @
       [CtxMinerMessage ''user'' u, CtxMinerMessage ''assistant'' (fst (chat e s u))]"
  by (simp add: chat_def Let_def split_beta generate_response_fst generate_response_snd
      get_relevant_context_session save_conversation_turn_session append_message_def log_to_def)

lemma chat_calls:
  "miner_calls (snd (chat e s u)) =
     miner_calls s @ [SearchContext u 10] @
       (if 4 \<le> length (current_session s) + 2 \<and> (length (current_session s) + 2) mod 4 = 0
        then [AddEpisode (current_session (snd (chat e s u)))
                (''Session_'' @ user_id s @ ''_'' @ now e)
                (''Conversation session for user '' @ user_id s)]
        else [])"
  by (simp add: chat_def Let_def split_beta generate_response_fst generate_response_snd
      get_relevant_context_session get_relevant_context_calls get_relevant_context_user
      save_conversation_turn_session save_conversation_turn_calls append_message_def log_to_def)

lemma map_filter_append:
  "List.map_filter f (xs @ ys) = List.map_filter f xs @ List.map_filter f ys"
  by (simp add: List.map_filter_def)

lemma chat_flushes:
  "flushes (snd (chat e s u)) =
     flushes s @
       (if 4 \<le> length (current_session s) + 2 \<and> (length (current_session s) + 2) mod 4 = 0
        then [current_session (snd (chat e s u))] else [])"
  by (simp add: flushes_def chat_calls map_filter_append List.map_filter_def)

lemma save_conversation_turn_flushes:
  "flushes (save_conversation_turn e s) =
     flushes s @ (if 2 \<le> length (current_session s) then [current_session s] else [])"
  by (simp add: flushes_def save_conversation_turn_calls map_filter_append List.map_filter_def)

lemma end_session_session: "current_session (end_session e s) = []"
  by (simp add: end_session_def log_to_def)

lemma end_session_flushes:
  "flushes (end_session e s) =
     flushes s @ (if 2 \<le> length (current_session s) then [current_session s] else [])"
  by (simp add: end_session_def flushes_def log_to_def save_conversation_turn_calls
      map_filter_append List.map_filter_def)

lemma stage_flushes:
  "flushes (append_message m s) = flushes s"
  "flushes (snd (get_relevant_context e s u n)) = flushes s"
  "flushes (snd (generate_response s u c)) = flushes s"
  by (simp_all add: flushes_def append_message_def get_relevant_context_calls
      generate_response_snd map_filter_append List.map_filter_def)

lemma append_message_session:
  "current_session (append_message m s) = current_session s @ [m]"
  by (simp add: append_message_def)

lemma MemoryChatbot_fields:
  "current_session (MemoryChatbot uid) = []"
  "flushes (MemoryChatbot uid) = []"
  "user_id (MemoryChatbot uid) = uid"
  by (simp_all add: MemoryChatbot_def flushes_def List.map_filter_def)

lemma six_turns_session:
  "current_session six_turns =
     [CtxMinerMessage ''user'' ''U1'',
      CtxMinerMessage ''assistant'' ''[Simulated response based on context about: U1]'',
      CtxMinerMessage ''user'' ''U2'',
      CtxMinerMessage ''assistant'' ''[Simulated response based on context about: U2]'',
      CtxMinerMessage ''user'' ''U3'',
      CtxMinerMessage ''assistant'' ''[Simulated response based on context about: U3]'']"
  by (simp add: six_turns_def chat_session chat_response MemoryChatbot_fields)

lemma six_turns_flushes:
  "flushes six_turns = [take 4 (current_session six_turns)]"
  unfolding six_turns_session
  by (simp add: six_turns_def chat_flushes chat_session chat_response MemoryChatbot_fields)

lemma one_turn_fields:
  "current_session one_turn = [CtxMinerMessage ''user'' ''U1'']" "flushes one_turn = []"
  by (simp add: one_turn_def append_message_def MemoryChatbot_fields)
     (simp add: one_turn_def stage_flushes MemoryChatbot_fields)


section \<open>The formatter's loop and the retriever's loop\<close>

lemma format_loop_blocks:
  "format_loop xs acc = acc @ concat (map (\<lambda>(i, r). spec_block i r) xs)"
  by (induction xs arbitrary: acc) (auto simp: spec_block_def Let_def)

lemma enumerate_blocks:
  "map (\<lambda>(i, r). spec_block i r) (enumerate (Suc 0) ys) = spec_blocks ys (length ys)"
  by (rule nth_equalityI) (simp_all add: spec_blocks_def nth_enumerate_eq)

lemma spec_blocks_take:
  "k \<le> length rs \<Longrightarrow> spec_blocks (take k rs) k = spec_blocks rs k"
  by (simp add: spec_blocks_def)

lemma slice_to_nonneg:
  "0 \<le> n \<Longrightarrow> slice_to xs n = take (min (nat n) (length xs)) xs"
  by (simp add: slice_to_def min_def)

lemma format_parts_blocks:
  assumes "0 \<le> n"
  shows "format_parts rs n =
     ''Relevant conversation context:'' # concat (spec_blocks rs (min (nat n) (length rs)))"
proof -
  let ?k = "min (nat n) (length rs)"
  have "map (\<lambda>(i, r). spec_block i r) (enumerate (Suc 0) (take ?k rs)) =
      spec_blocks (take ?k rs) (length (take ?k rs))"
    by (rule enumerate_blocks)
  also have "\<dots> = spec_blocks rs ?k"
    by (simp add: spec_blocks_take)
  finally show ?thesis
    using assms by (simp add: format_parts_def format_loop_blocks slice_to_nonneg)
qed

lemma numbered_in_block:
  "filter is_numbered_line (spec_block i r) =
     [NL # str_nat i @ ''. '' @ py_str (dict_get r ''fact'' (PyStr ''''))]"
  by (simp add: spec_block_def is_numbered_line_def NL_def)

lemma numbered_in_blocks:
  "length (filter is_numbered_line (concat bs)) =
     sum_list (map (\<lambda>b. length (filter is_numbered_line b)) bs)"
  by (induction bs) simp_all

lemma count_numbered_blocks:
  "length (filter is_numbered_line (concat (spec_blocks rs k))) = k"
  by (simp add: numbered_in_blocks spec_blocks_def numbered_in_block comp_def sum_list_triv)

lemma join_heading: "join sep (p # ps) = p @ concat (map (\<lambda>q. sep @ q) ps)"
  by (induction ps arbitrary: p) simp_all

lemma block_text_lines: "concat (map (\<lambda>q. [NL] @ q) (spec_block i r)) = block_text i r"
  by (simp add: spec_block_def block_text_def)

lemma concat_map_blocks:
  "concat (map f (concat bs)) = concat (map (\<lambda>b. concat (map f b)) bs)"
  by (induction bs) simp_all

lemma blocks_text:
  "concat (map (\<lambda>q. [NL] @ q) (concat (spec_blocks rs k))) =
     concat (map (\<lambda>j. block_text (j + 1) (rs ! j)) [0..<k])"
  by (simp only: concat_map_blocks spec_blocks_def map_map comp_def block_text_lines)

lemma formatted_text:
  assumes "0 \<le> n" "rs \<noteq> []"
  shows "format_context_for_llm rs n =
     ''Relevant conversation context:'' @
       concat (map (\<lambda>j. block_text (j + 1) (rs ! j)) [0..<min (nat n) (length rs)])"
  using assms
  by (simp only: format_context_for_llm_def format_parts_blocks join_heading blocks_text if_False)

lemma str_nat_digits: "n < 10 \<Longrightarrow> str_nat n = [''0123456789'' ! n]"
  by (simp add: str_nat.simps digit_char_def)

lemma keep_new_index:
  "keep_new S xs =
     map (\<lambda>i. xs ! i) (filter (\<lambda>i. xs ! i \<notin> S \<union> set (take i xs)) [0..<length xs])"
proof (induction xs arbitrary: S)
  case Nil
  show ?case by simp
next
  case (Cons x xs)
  have upt: "[0..<length (x # xs)] = 0 # map Suc [0..<length xs]"
    by (simp add: upt_conv_Cons map_Suc_upt del: upt_Suc)
  show ?case
  proof (cases "x \<in> S")
    case True
    then show ?thesis
      unfolding upt
      by (simp add: Cons.IH filter_map comp_def del: upt_Suc)
        (auto intro!: arg_cong [where f = "map ((!) xs)"] filter_cong)
  next
    case False
    then show ?thesis
      unfolding upt
      by (simp add: Cons.IH filter_map comp_def del: upt_Suc)
        (auto intro!: arg_cong [where f = "map ((!) xs)"] filter_cong)
  qed
qed

lemma first_occurrences_keep: "first_occurrences xs = keep_new {} xs"
  by (simp add: first_occurrences_def keep_new_index)

lemma set_keep_new: "set (keep_new S xs) = set xs - S"
  by (induction xs arbitrary: S) auto

lemma distinct_keep_new: "distinct (keep_new S xs)"
  by (induction xs arbitrary: S) (auto simp: set_keep_new)

lemma subseq_keep_new: "subseq (keep_new S xs) xs"
  by (induction xs arbitrary: S) auto

lemma py_strip_text:
  "fact_is_text r \<Longrightarrow> py_strip (dict_get r ''fact'' (PyStr '''')) = Inr (trimmed_fact r)"
  by (auto simp: fact_is_text_def py_strip_def trimmed_fact_def dict_get_def
      split: option.splits pyval.splits)

lemma collect_facts_keep:
  "\<forall>r\<in>set rs. fact_is_text r \<Longrightarrow>
   collect_facts rs acc S =
     Inr (acc @ map (\<lambda>f. ''- '' @ f)
                  (keep_new S (filter (\<lambda>f. f \<noteq> []) (map trimmed_fact rs))))"
  by (induction rs arbitrary: acc S) (simp_all add: py_strip_text)

lemma collect_facts_first:
  "\<forall>r\<in>set rs. fact_is_text r \<Longrightarrow>
   collect_facts rs [] {} =
     Inr (map (\<lambda>f. ''- '' @ f)
            (first_occurrences (filter (\<lambda>f. f \<noteq> []) (map trimmed_fact rs))))"
  by (simp add: collect_facts_keep first_occurrences_keep)

lemma all_dropWhile: "(\<forall>c\<in>set (dropWhile P t). P c) \<longleftrightarrow> (\<forall>c\<in>set t. P c)"
  by (induction t) auto

lemma strip_empty: "strip t = [] \<longleftrightarrow> (\<forall>c\<in>set t. is_space c)"
  by (simp add: strip_def dropWhile_eq_Nil_conv all_dropWhile)

lemma strip_samples:
  "strip ''  refund '' = ''refund''" "strip ''   '' = []" "strip ''refund'' = ''refund''"
  "strip ''shipping'' = ''shipping''" "strip [] = []"
  by (simp_all add: strip_def is_space_def)


section \<open>The session buffer and its flushes\<close>

text \<open>
  C1 (as the code has it). On an empty buffer three calls of \<open>chat\<close> append U1, A1, U2, A2,
  U3, A3. No \<open>add_episode\<close> call is made after A1; the call made after A2 carries the whole
  buffer, which is exactly U1, A1, U2, A2; none is made after A3, so U3 and A3 stay
  unsubmitted until \<open>end_session\<close>. The class keeps no flush boundary index: the call that
  \<open>end_session\<close> makes carries the whole buffer again, U1 to A2 included.
\<close>

theorem flush_submits_whole_buffer:
  fixes e1 e2 e3 e4 :: env and s s1 s2 s3 :: chatbot and u1 u2 u3 :: string
  assumes "current_session s = []"
  defines "s1 \<equiv> snd (chat e1 s u1)"
    and "s2 \<equiv> snd (chat e2 s1 u2)"
    and "s3 \<equiv> snd (chat e3 s2 u3)"
  shows "flushes s1 = flushes s
     \<and> current_session s2 =
         [CtxMinerMessage ''user'' u1, CtxMinerMessage ''assistant'' (fst (chat e1 s u1)),
          CtxMinerMessage ''user'' u2, CtxMinerMessage ''assistant'' (fst (chat e2 s1 u2))]
     \<and> flushes s2 = flushes s @ [current_session s2]
     \<and> current_session s3 =
         current_session s2 @
         [CtxMinerMessage ''user'' u3, CtxMinerMessage ''assistant'' (fst (chat e3 s2 u3))]
     \<and> flushes s3 = flushes s2
     \<and> flushes (end_session e4 s3) = flushes s3 @ [current_session s3]"
  unfolding s1_def s2_def s3_def
  using assms(1)
  by (simp add: chat_flushes chat_session end_session_flushes)

theorem flush_submits_whole_buffer_witness:
  "current_session (MemoryChatbot ''user_001'') = []
   \<and> flushes six_turns = [take 4 (current_session six_turns)]
   \<and> flushes (end_session demo_env six_turns) =
       [take 4 (current_session six_turns), current_session six_turns]"
  using flush_submits_whole_buffer [where s = "MemoryChatbot ''user_001''"
      and ?e1.0 = demo_env and ?e2.0 = demo_env and ?e3.0 = demo_env and ?e4.0 = demo_env
      and ?u1.0 = "''U1''" and ?u2.0 = "''U2''" and ?u3.0 = "''U3''"]
  by (simp add: six_turns_def MemoryChatbot_fields chat_session chat_response)

text \<open>
  C1 as stated fails: after the flush at A2, the next flush does not start at a boundary
  index 4. The episode that \<open>end_session\<close> submits is all six turns, not U3 and A3.
\<close>

theorem flush_resubmits_counterexample:
  "flushes (end_session demo_env six_turns) =
     [take 4 (current_session six_turns), current_session six_turns]
   \<and> flushes (end_session demo_env six_turns) \<noteq>
     [take 4 (current_session six_turns), drop 4 (current_session six_turns)]"
  by (simp add: end_session_flushes six_turns_flushes six_turns_session)

text \<open>
  C2 (as the code has it). \<open>end_session\<close> leaves an empty buffer and no ended state; a later
  \<open>chat\<close> raises nothing, returns its reply and leaves a buffer that holds the new user
  message and that reply.
\<close>

theorem chat_after_end_session:
  "current_session (end_session e s) = []
   \<and> fst (chat e' (end_session e s) u) =
       ''[Simulated response based on context about: '' @ u @ '']''
   \<and> current_session (snd (chat e' (end_session e s) u)) =
       [CtxMinerMessage ''user'' u,
        CtxMinerMessage ''assistant'' (fst (chat e' (end_session e s) u))]"
  by (simp add: end_session_session chat_session chat_response)

theorem chat_after_end_session_witness:
  "current_session (snd (chat demo_env (end_session demo_env six_turns) ''U4'')) =
     [CtxMinerMessage ''user'' ''U4'',
      CtxMinerMessage ''assistant'' ''[Simulated response based on context about: U4]'']"
  using chat_after_end_session [of demo_env six_turns demo_env "''U4''"]
  by simp

text \<open>
  C2 as stated fails: a \<open>chat\<close> after \<open>end_session\<close> changes the buffer.
\<close>

theorem append_after_end_counterexample:
  "current_session (snd (chat demo_env (end_session demo_env six_turns) ''U4'')) \<noteq>
     current_session (end_session demo_env six_turns)"
  by (simp add: end_session_session chat_session)

text \<open>
  C3 (as the code has it). \<open>end_session\<close> makes exactly one \<open>add_episode\<close> call, carrying
  the whole buffer, when the buffer holds at least two turns, and makes none when it holds
  fewer (the guard of \<open>save_conversation_turn\<close>); either way the buffer is empty afterwards.
\<close>

theorem end_session_final_flush:
  "flushes (end_session e s) =
     flushes s @ (if 2 \<le> length (current_session s) then [current_session s] else [])
   \<and> current_session (end_session e s) = []"
  by (simp add: end_session_flushes end_session_session)

theorem end_session_final_flush_witness:
  "flushes (end_session failing_env six_turns) =
     [take 4 (current_session six_turns), current_session six_turns]
   \<and> current_session (end_session failing_env six_turns) = []"
  using end_session_final_flush [of failing_env six_turns]
  by (simp add: six_turns_flushes six_turns_session)

text \<open>
  C3 as stated fails for a buffer of one turn: \<open>end_session\<close> makes no \<open>add_episode\<close> call
  and clears the buffer.
\<close>

theorem single_turn_dropped_counterexample:
  "current_session one_turn = [CtxMinerMessage ''user'' ''U1'']
   \<and> flushes (end_session demo_env one_turn) = flushes one_turn
   \<and> flushes (end_session demo_env one_turn) \<noteq> flushes one_turn @ [current_session one_turn]
   \<and> current_session (end_session demo_env one_turn) = []"
  by (simp add: end_session_flushes end_session_session one_turn_fields)

text \<open>
  C5. A call of \<open>chat\<close> makes one \<open>add_episode\<close> call exactly when the buffer, after the
  assistant turn is appended, holds at least 4 turns and a multiple of 4, and none otherwise;
  appending the user turn, retrieving and generating make none. On a new chatbot the first
  \<open>chat\<close> (2 turns) and the user turn of the second (3 turns) make no such call, and the
  second \<open>chat\<close> (4 turns) has made exactly one when it returns.
\<close>

theorem flush_every_four_turns:
  "length (flushes (snd (chat e s u))) =
     length (flushes s) +
       (if 4 \<le> length (current_session (snd (chat e s u)))
           \<and> length (current_session (snd (chat e s u))) mod 4 = 0 then 1 else 0)
   \<and> flushes (append_message m s) = flushes s
   \<and> flushes (snd (get_relevant_context e s u n)) = flushes s
   \<and> flushes (snd (generate_response s u c)) = flushes s
   \<and> length (current_session (snd (chat e1 (MemoryChatbot uid) u1))) = 2
   \<and> flushes (snd (chat e1 (MemoryChatbot uid) u1)) = []
   \<and> length (current_session
         (append_message (CtxMinerMessage ''user'' u2) (snd (chat e1 (MemoryChatbot uid) u1)))) = 3
   \<and> flushes (append_message (CtxMinerMessage ''user'' u2)
         (snd (chat e1 (MemoryChatbot uid) u1))) = []
   \<and> length (current_session (snd (chat e2 (snd (chat e1 (MemoryChatbot uid) u1)) u2))) = 4
   \<and> length (flushes (snd (chat e2 (snd (chat e1 (MemoryChatbot uid) u1)) u2))) = 1"
  by (simp add: chat_flushes chat_session stage_flushes MemoryChatbot_fields
      append_message_session)

theorem flush_every_four_turns_witness:
  "length (flushes (snd (chat demo_env six_turns ''U4''))) = 2
   \<and> length (flushes (snd (chat demo_env (snd (chat demo_env (MemoryChatbot ''user_001'') ''U1''))
        ''U2''))) = 1"
  using flush_every_four_turns [of demo_env six_turns "''U4''"
      "CtxMinerMessage ''user'' ''U4''" 0 "[]" demo_env "''user_001''" "''U1''" "''U2''" demo_env]
  by (simp add: six_turns_flushes six_turns_session chat_session)

text \<open>
  C9. \<open>chat\<close> leaves the buffer it found as a prefix and appends the user message, then the
  assistant message; \<open>save_conversation_turn\<close>, \<open>get_relevant_context\<close> and
  \<open>generate_response\<close> leave the buffer as it is.
\<close>

theorem turns_append_only:
  "current_session (snd (chat e s u)) =
     current_session s @
       [CtxMinerMessage ''user'' u, CtxMinerMessage ''assistant'' (fst (chat e s u))]
   \<and> current_session (save_conversation_turn e s) = current_session s
   \<and> current_session (snd (get_relevant_context e s u n)) = current_session s
   \<and> current_session (snd (generate_response s u c)) = current_session s"
  by (simp add: chat_session save_conversation_turn_session get_relevant_context_session
      generate_response_snd)

theorem turns_append_only_witness:
  "current_session (snd (chat demo_env six_turns ''U4'')) =
     current_session six_turns @
       [CtxMinerMessage ''user'' ''U4'',
        CtxMinerMessage ''assistant'' ''[Simulated response based on context about: U4]'']
   \<and> current_session (save_conversation_turn demo_env six_turns) = current_session six_turns"
  using turns_append_only [of demo_env six_turns "''U4''" 5 "[]"]
  by (simp add: chat_response)


section \<open>The context formatter\<close>

text \<open>
  C8. For a positive \<open>max_contexts\<close>, \<open>format_context_for_llm\<close> returns the fixed sentence
  ``No relevant context found.'' for an empty list, and otherwise the heading followed by
  exactly \<open>min(max_contexts, len(search_results))\<close> blocks, numbered from 1 in input order,
  each the numbered fact text followed by the indented \<open>From:\<close> line exactly when
  \<open>created_at\<close> holds a value.
\<close>

theorem formatter_output:
  assumes "0 < n"
  shows "format_context_for_llm results n =
      (if results = [] then ''No relevant context found.''
       else join [NL] (''Relevant conversation context:'' #
              concat (spec_blocks results (min (nat n) (length results)))))
    \<and> length (spec_blocks results (min (nat n) (length results))) = min (nat n) (length results)"
  using assms by (simp add: format_context_for_llm_def format_parts_blocks spec_blocks_def)

theorem formatter_output_witness:
  "format_context_for_llm sample_results 2 =
     ''Relevant conversation context:'' @ [NL, NL] @ ''1. Refunds within 30 days'' @ [NL]
       @ ''   (From: 2024-01-01)'' @ [NL, NL] @ ''2. ''"
  using formatter_output [of 2 sample_results]
  by (simp add: sample_results_def spec_blocks_def spec_block_def dict_get_def truthy_def
      py_str_def str_nat_digits)

text \<open>
  C10. For a non-negative \<open>max_contexts\<close> and a non-empty list, the text that
  \<open>format_context_for_llm\<close> returns is the heading followed by exactly
  \<open>min(max_contexts, len(search_results))\<close> block texts, one for each of the first entries in
  input order, whatever the facts are: every block text starts with an empty line and its
  number, and the block of an entry whose fact is missing or empty is its number with empty
  text (and the provenance line, when there is one). The formatter filters nothing: the parts
  it joins hold that many numbered lines.
\<close>

theorem formatter_counts_every_entry:
  assumes "0 \<le> n"
  shows "(results \<noteq> [] \<longrightarrow>
        format_context_for_llm results n =
          ''Relevant conversation context:'' @
            concat (map (\<lambda>j. block_text (j + 1) (results ! j))
                      [0..<min (nat n) (length results)]))
    \<and> (\<forall>j < min (nat n) (length results).
          prefix ([NL, NL] @ str_nat (j + 1) @ ''. '') (block_text (j + 1) (results ! j)))
    \<and> (\<forall>j < min (nat n) (length results).
          dict_get (results ! j) ''fact'' (PyStr '''') = PyStr '''' \<longrightarrow>
          block_text (j + 1) (results ! j) =
            [NL, NL] @ str_nat (j + 1) @ ''. ''
            @ (if truthy (dict_get (results ! j) ''created_at'' (PyStr ''''))
               then [NL] @ ''   (From: ''
                    @ py_str (dict_get (results ! j) ''created_at'' (PyStr '''')) @ '')''
               else []))
    \<and> length (filter is_numbered_line (format_parts results n)) = min (nat n) (length results)
    \<and> (\<forall>j < min (nat n) (length results).
          dict_get (results ! j) ''fact'' (PyStr '''') = PyStr '''' \<longrightarrow>
          NL # str_nat (j + 1) @ ''. '' \<in> set (format_parts results n))"
proof -
  have "NL # str_nat (j + 1) @ ''. '' \<in> set (format_parts results n)"
    if "j < min (nat n) (length results)" "dict_get (results ! j) ''fact'' (PyStr '''') = PyStr ''''"
    for j
  proof -
    have "spec_block (j + 1) (results ! j) \<in> set (spec_blocks results (min (nat n) (length results)))"
      using that(1) by (simp add: spec_blocks_def)
    moreover have "NL # str_nat (j + 1) @ ''. '' \<in> set (spec_block (j + 1) (results ! j))"
      using that(2) by (simp add: spec_block_def py_str_def)
    ultimately show ?thesis
      using assms by (auto simp: format_parts_blocks)
  qed
  moreover have "length (filter is_numbered_line (format_parts results n)) = min (nat n) (length results)"
    using assms by (simp add: format_parts_blocks count_numbered_blocks is_numbered_line_def NL_def)
  moreover have "prefix ([NL, NL] @ str_nat i @ ''. '') (block_text i r)" for i r
    by (simp add: block_text_def)
  moreover have "block_text i r =
      [NL, NL] @ str_nat i @ ''. ''
      @ (if truthy (dict_get r ''created_at'' (PyStr ''''))
         then [NL] @ ''   (From: '' @ py_str (dict_get r ''created_at'' (PyStr '''')) @ '')''
         else [])"
    if "dict_get r ''fact'' (PyStr '''') = PyStr ''''" for i r
    using that by (simp add: block_text_def py_str_def)
  moreover have "format_context_for_llm results n =
      ''Relevant conversation context:'' @
        concat (map (\<lambda>j. block_text (j + 1) (results ! j)) [0..<min (nat n) (length results)])"
    if "results \<noteq> []"
    using assms that by (rule formatted_text)
  ultimately show ?thesis
    by blast
qed

theorem formatter_counts_every_entry_witness:
  "format_context_for_llm sample_results 3 =
     ''Relevant conversation context:'' @ [NL, NL] @ ''1. Refunds within 30 days'' @ [NL]
       @ ''   (From: 2024-01-01)'' @ [NL, NL] @ ''2. '' @ [NL, NL] @ ''3. Free shipping over $50''
   \<and> length (filter is_numbered_line (format_parts sample_results 2)) = 2
   \<and> NL # ''2. '' \<in> set (format_parts sample_results 2)"
  using formatter_counts_every_entry [of 3 sample_results, THEN conjunct1]
    formatter_counts_every_entry [of 2 sample_results, THEN conjunct2, THEN conjunct2,
      THEN conjunct2, THEN conjunct1]
    formatter_counts_every_entry [of 2 sample_results, THEN conjunct2, THEN conjunct2,
      THEN conjunct2, THEN conjunct2, rule_format, of 1]
  by (simp add: sample_results_def block_text_def dict_get_def truthy_def py_str_def
      str_nat_digits)


section \<open>The context retriever\<close>

text \<open>
  C4 (the code at the failing input). Asked for 3 contexts, \<open>get_relevant_context\<close> requests
  6 results; the engine returns six, with five distinct facts; the loop runs over the first
  3 only, two of which share their fact, and the context holds 2 facts.
\<close>

theorem retrieval_truncates_before_dedup:
  "search_context refund_env ''refund'' 6 = Inr refund_results
   \<and> length (remdups (map trimmed_fact refund_results)) = 5
   \<and> miner_calls (snd (get_relevant_context refund_env (MemoryChatbot ''user_001'') ''refund'' 3))
       = [SearchContext ''refund'' 6]
   \<and> fst (get_relevant_context refund_env (MemoryChatbot ''user_001'') ''refund'' 3) =
       ''Relevant context from past conversations:'' @ [NL] @ ''- Refunds within 30 days''
         @ [NL] @ ''- Free shipping over $50''"
  by (simp add: refund_env_def demo_env_def refund_results_def slice_to_def get_relevant_context_def
      call_miner_def MemoryChatbot_def fact_result_def py_strip_def dict_get_def trimmed_fact_def
      strip_def is_space_def Let_def)

text \<open>
  C6. When the search returns, and the facts it looks at are text, the context that
  \<open>get_relevant_context\<close> returns lists the trimmed fact texts of \<open>results[:max_contexts]\<close>,
  empty ones left out (a fact trims to the empty text exactly when it is all white space),
  each text once, at its first occurrence, in the order of the results; it is the empty
  text when none is left.
\<close>

theorem retriever_dedup:
  fixes facts :: "string list"
  assumes "search_context e q (n * 2) = Inr results"
    and "\<forall>r\<in>set (slice_to results n). fact_is_text r"
  defines "facts \<equiv>
     first_occurrences (filter (\<lambda>f. f \<noteq> []) (map trimmed_fact (slice_to results n)))"
  shows "fst (get_relevant_context e s q n) =
      (if facts = [] then ''''
       else ''Relevant context from past conversations:'' @ [NL]
              @ join [NL] (map (\<lambda>f. ''- '' @ f) facts))
    \<and> distinct facts
    \<and> set facts = {f \<in> trimmed_fact ` set (slice_to results n). f \<noteq> []}
    \<and> subseq facts (map trimmed_fact (slice_to results n))
    \<and> (strip t = [] \<longleftrightarrow> (\<forall>c\<in>set t. is_space c))"
proof -
  have "fst (get_relevant_context e s q n) =
      (if facts = [] then ''''
       else ''Relevant context from past conversations:'' @ [NL]
              @ join [NL] (map (\<lambda>f. ''- '' @ f) facts))"
  proof (cases "results = []")
    case True
    then show ?thesis
      using assms(1) by (simp add: get_relevant_context_def facts_def slice_to_def
          first_occurrences_def)
  next
    case False
    then show ?thesis
      using assms(1) collect_facts_first [OF assms(2)]
      by (simp add: get_relevant_context_def facts_def Let_def)
  qed
  moreover have "distinct facts"
    by (simp add: facts_def first_occurrences_keep distinct_keep_new)
  moreover have "set facts = {f \<in> trimmed_fact ` set (slice_to results n). f \<noteq> []}"
    by (auto simp: facts_def first_occurrences_keep set_keep_new)
  moreover have "subseq facts (map trimmed_fact (slice_to results n))"
    unfolding facts_def first_occurrences_keep
    by (rule subseq_order.order_trans [OF subseq_keep_new]) simp
  ultimately show ?thesis
    by (simp add: strip_empty)
qed

theorem retriever_dedup_witness:
  "fst (get_relevant_context untrimmed_env (MemoryChatbot ''user_001'') ''refund'' 5) =
     ''Relevant context from past conversations:'' @ [NL] @ ''- refund'' @ [NL] @ ''- shipping''"
  using retriever_dedup [of untrimmed_env "''refund''" 5 untrimmed_results
      "MemoryChatbot ''user_001''" "[]"]
  by (simp add: untrimmed_env_def untrimmed_results_def demo_env_def slice_to_def fact_is_text_def
      fact_result_def trimmed_fact_def dict_get_def first_occurrences_def strip_samples)

text \<open>
  C7 (as the code has it). When the search of a \<open>chat\<close> turn raises,
  \<open>get_relevant_context\<close> logs the error and returns the empty text, and \<open>chat\<close> still
  returns its reply, which is not empty; \<open>get_context_for_query\<close>, which has no handler,
  raises the same error to its caller.
\<close>

theorem retrieval_failure:
  assumes "search_context e u 10 = Inl ex"
  shows "fst (get_relevant_context e s u 5) = ''''
    \<and> logged (snd (get_relevant_context e s u 5)) = logged s @ [ErrorRetrieving ex]
    \<and> fst (chat e s u) = ''[Simulated response based on context about: '' @ u @ '']''
    \<and> fst (chat e s u) \<noteq> []
    \<and> ErrorRetrieving ex \<in> set (logged (snd (chat e s u)))
    \<and> get_context_for_query e u 10 format_for_llm = Inl ex"
proof -
  have retrieved: "get_relevant_context e s' u 5 =
      ('''', log_to (ErrorRetrieving ex) (call_miner (SearchContext u 10) s'))" for s'
    using assms by (simp add: get_relevant_context_def)
  have "ErrorRetrieving ex \<in> set (logged (snd (chat e s u)))"
    by (simp add: chat_def retrieved Let_def split_beta generate_response_def
        save_conversation_turn_def log_to_def call_miner_def append_message_def
        split: option.splits)
  moreover have "get_context_for_query e u 10 format_for_llm = Inl ex"
    using assms by (simp add: get_context_for_query_def)
  ultimately show ?thesis
    by (simp add: retrieved chat_response log_to_def call_miner_def)
qed

theorem retrieval_failure_witness:
  "search_context failing_env ''U4'' 10 = Inl (EngineError ''connection refused'')
   \<and> fst (get_relevant_context failing_env six_turns ''U4'' 5) = ''''
   \<and> fst (chat failing_env six_turns ''U4'') =
       ''[Simulated response based on context about: U4]''"
  using retrieval_failure [of failing_env "''U4''" "EngineError ''connection refused''"
      six_turns True]
  by (simp add: failing_env_def)

text \<open>
  C7 as stated fails for \<open>get_context_for_query\<close>: the error of the search is its result.
\<close>

theorem library_retrieval_propagates_counterexample:
  "get_context_for_query failing_env ''refund policy'' 10 True =
     Inl (EngineError ''connection refused'')"
  by (simp add: get_context_for_query_def failing_env_def)

end
